theory Spec2Isabelle
  imports Main "HOL-Library.Word"
begin

text \<open>
  A model of the analysis-request lifecycle of the PeaceTalk application: the
  \<^verbatim>\<open>App\<close> component of App.tsx (state, refs, handlers and effects) and the end of
  \<^verbatim>\<open>analyzeContent\<close> of services/geminiService.ts. The component is an event-driven
  state machine: a handler runs to its \<^verbatim>\<open>await\<close> or to its end, React renders and runs
  the effects whose dependencies changed, and the platform delivers the next event.
\<close>

section \<open>Values exchanged with the analysis service\<close>

text \<open>
  \<^verbatim>\<open>analyzeContent\<close> (services/geminiService.ts) returns whatever \<^verbatim>\<open>JSON.parse\<close> yields,
  cast to \<^verbatim>\<open>AnalysisResult\<close>. A TypeScript cast does nothing at run time, so the values
  that flow through the application are arbitrary JSON values. Numbers are kept as
  integers (the schema asks for an integer temperature); fractional numbers are outside
  this embedding.
\<close>

datatype json =
    JNull
  | JBool bool
  | JNumber int
  | JString string
  | JArray "json list"
  | JObject "(string \<times> json) list"

text \<open>Property lookup on a parsed object: a later duplicate key wins in \<^verbatim>\<open>JSON.parse\<close>.\<close>

definition field :: "json \<Rightarrow> string \<Rightarrow> json option" where
  "field v k = (case v of JObject kvs \<Rightarrow> map_of (rev kvs) k | _ \<Rightarrow> None)"

definition is_integer :: "json option \<Rightarrow> bool" where
  "is_integer v = (case v of Some (JNumber _) \<Rightarrow> True | _ \<Rightarrow> False)"

definition is_string :: "json option \<Rightarrow> bool" where
  "is_string v = (case v of Some (JString _) \<Rightarrow> True | _ \<Rightarrow> False)"

text \<open>
  The constant \<^verbatim>\<open>schema\<close> of geminiService.ts: the five required properties and the two
  required properties of \<^verbatim>\<open>recipientImpact\<close>. It is sent to the service as
  \<^verbatim>\<open>responseSchema\<close>; the client never evaluates it.
\<close>

definition recipientImpact_schema :: "json option \<Rightarrow> bool" where
  "recipientImpact_schema v =
     (case v of
        Some (JObject kvs) \<Rightarrow>
          is_string (field (JObject kvs) ''predictedFeeling'')
          \<and> is_string (field (JObject kvs) ''impactExplanation'')
      | _ \<Rightarrow> False)"

definition schema :: "json \<Rightarrow> bool" where
  "schema v =
     (is_integer (field v ''temperature'')
      \<and> is_string (field v ''emotion'')
      \<and> is_string (field v ''suggestion'')
      \<and> is_string (field v ''explanation'')
      \<and> recipientImpact_schema (field v ''recipientImpact''))"

subsection \<open>Strings: \<^verbatim>\<open>trim\<close> and truthiness\<close>

text \<open>
  A text that \<^verbatim>\<open>trim\<close> is applied to (the input text, the response text) is a list of
  UTF-16 code units, as a JavaScript string is. \<open>js s\<close> is the text whose code units are
  the character codes of the ASCII literal \<open>s\<close>.
\<close>

type_synonym jsstring = "16 word list"

definition js :: "string \<Rightarrow> jsstring" where
  "js s = map of_char s"

text \<open>
  \<^verbatim>\<open>String.prototype.trim\<close> removes white space and line terminators at both ends: the
  code points TAB, LF, VT, FF, CR, SPACE, U+00A0, U+1680, U+2000 to U+200A, U+2028,
  U+2029, U+202F, U+205F, U+3000 and U+FEFF. All of them are single code units.
\<close>

definition is_ws :: "16 word \<Rightarrow> bool" where
  "is_ws c =
     (c \<in> {0x9, 0xA, 0xB, 0xC, 0xD, 0x20, 0xA0, 0x1680, 0x2028, 0x2029, 0x202F, 0x205F,
            0x3000, 0xFEFF}
      \<or> (0x2000 \<le> c \<and> c \<le> 0x200A))"

definition trim :: "jsstring \<Rightarrow> jsstring" where
  "trim s = rev (dropWhile is_ws (rev (dropWhile is_ws s)))"

text \<open>\<^verbatim>\<open>!inputText.trim()\<close>: the empty string is falsy.\<close>

definition blank :: "jsstring \<Rightarrow> bool" where
  "blank s = (trim s = [])"

text \<open>Truthiness of a \<^verbatim>\<open>string | null\<close>: \<^verbatim>\<open>null\<close> and the empty string are falsy.\<close>

definition truthy :: "string option \<Rightarrow> bool" where
  "truthy v = (case v of None \<Rightarrow> False | Some s \<Rightarrow> s \<noteq> [])"

text \<open>
  Truthiness of a parsed value held in a state cell (\<open>None\<close> is \<^verbatim>\<open>null\<close>): \<^verbatim>\<open>false\<close>,
  \<^verbatim>\<open>0\<close> and the empty string are falsy too.
\<close>

definition truthy_value :: "json option \<Rightarrow> bool" where
  "truthy_value v =
     (case v of
        None \<Rightarrow> False
      | Some JNull \<Rightarrow> False
      | Some (JBool b) \<Rightarrow> b
      | Some (JNumber n) \<Rightarrow> n \<noteq> 0
      | Some (JString s) \<Rightarrow> s \<noteq> []
      | Some _ \<Rightarrow> True)"

subsection \<open>The end of \<^verbatim>\<open>analyzeContent\<close>\<close>

text \<open>
  What \<^verbatim>\<open>ai.models.generateContent\<close> does is the platform's: it rejects with an
  \<^verbatim>\<open>Error\<close>, rejects with something else, or resolves with a response whose
  \<^verbatim>\<open>text\<close> is a string or undefined.
\<close>

datatype service_outcome =
    Rejects_Error string
  | Rejects_Other
  | Responds "jsstring option"

text \<open>
  Lines 114-135 of geminiService.ts. \<^verbatim>\<open>JSON.parse\<close> is the platform's and is a
  parameter: \<open>Inl m\<close> is a thrown \<^verbatim>\<open>SyntaxError\<close> with message \<open>m\<close>. Reading
  \<^verbatim>\<open>.trim\<close> of an undefined text throws a \<^verbatim>\<open>TypeError\<close>, caught by the same handler;
  its message is the engine's and is the parameter \<open>undefined_trim_message\<close>.
  \<open>Inl\<close> of the result is the message of the \<^verbatim>\<open>Error\<close> the function throws.
\<close>

definition analyzeContent_settle ::
  "(jsstring \<Rightarrow> string + json) \<Rightarrow> string \<Rightarrow> service_outcome \<Rightarrow> string + json" where
  "analyzeContent_settle JSON_parse undefined_trim_message out =
     (case out of
        Rejects_Error m \<Rightarrow> Inl (''Failed to get analysis from AI: '' @ m)
      | Rejects_Other \<Rightarrow> Inl ''An unknown error occurred while analyzing the content.''
      | Responds None \<Rightarrow> Inl (''Failed to get analysis from AI: '' @ undefined_trim_message)
      | Responds (Some txt) \<Rightarrow>
          (case JSON_parse (trim txt) of
             Inl m \<Rightarrow> Inl (''Failed to get analysis from AI: '' @ m)
           | Inr v \<Rightarrow> Inr v))"

section \<open>The state of the \<^verbatim>\<open>App\<close> component\<close>

datatype Language = En | Ko | Es | Fr | Ja | Zh

datatype SocialTopic =
  General | Gender_equality | Human_rights | Violence_prevention | Workplace_conflict

datatype FeedbackState = Fb_none | Fb_submitted

text \<open>
  The error slot holds a string. The table \<^verbatim>\<open>translations\<close> is not among the sources, so
  \<^verbatim>\<open>t(key)\<close> evaluated under a language is kept symbolic.
\<close>

datatype message = Translated Language string | Literal string

record video =
  srcObject :: "nat option"

record upload =
  fsize :: nat
  ftype :: string

text \<open>The arguments of one call of \<^verbatim>\<open>analyzeContent\<close>.\<close>

record call =
  c_text :: jsstring
  c_language :: Language
  c_topic :: SocialTopic
  c_image :: "string option"
  c_mime :: "string option"

text \<open>
  The \<^verbatim>\<open>useState\<close> cells, the \<^verbatim>\<open>useRef\<close> cells, and what the component holds of the
  platform: the clock, the timer table of \<^verbatim>\<open>setTimeout\<close> (handle, due time) and of
  \<^verbatim>\<open>setInterval\<close> (handle, period), the capture streams whose tracks are live, and the
  asynchronous operations that are awaiting their result. Streams and timers are named by
  numbers. \<open>debounceCleanup\<close> is the handle captured by the clean-up function of the last
  run of the debounce effect. The canvas is always mounted; the video element is mounted
  only while \<open>isScreenSharing\<close> is rendered true. The dictation state
  (\<^verbatim>\<open>isRecording\<close>, \<^verbatim>\<open>speechRecognitionRef\<close>, \<^verbatim>\<open>baseTextRef\<close>) is left out: it reaches the
  rest only through \<^verbatim>\<open>setInputText\<close>.
\<close>

record state =
  inputText :: jsstring
  imageBase64 :: "string option"
  imageMimeType :: "string option"
  analysisResult :: "json option"
  analysisHistory :: "json list"
  isLoading :: bool
  isAnalyzingFrame :: bool
  error :: "message option"
  language :: Language
  socialTopic :: SocialTopic
  isScreenSharing :: bool
  feedbackState :: FeedbackState
  videoRef :: "video option"
  mediaStreamRef :: "nat option"
  analysisIntervalRef :: "nat option"
  isAnalyzingFrameRef :: bool
  debounceCleanup :: "nat option"
  now :: nat
  nextTimer :: nat
  timeouts :: "(nat \<times> nat) list"
  intervals :: "(nat \<times> nat) list"
  nextStream :: nat
  liveStreams :: "nat list"
  fileDialogOpen :: bool
  calls :: "call list"
  pendingAnalyze :: nat
  pendingFrame :: nat
  pendingFiles :: "(string \<times> Language) list"
  pendingShare :: nat

definition init :: state where
  "init = \<lparr> inputText = [], imageBase64 = None, imageMimeType = None,
     analysisResult = None, analysisHistory = [], isLoading = False,
     isAnalyzingFrame = False, error = None, language = En, socialTopic = General,
     isScreenSharing = False, feedbackState = Fb_none, videoRef = None,
     mediaStreamRef = None, analysisIntervalRef = None, isAnalyzingFrameRef = False,
     debounceCleanup = None, now = 0, nextTimer = 1, timeouts = [], intervals = [],
     nextStream = 0, liveStreams = [], fileDialogOpen = False, calls = [],
     pendingAnalyze = 0, pendingFrame = 0, pendingFiles = [], pendingShare = 0 \<rparr>"

section \<open>The handlers\<close>

text \<open>
  Every asynchronous handler is cut at its \<^verbatim>\<open>await\<close>: the part before it runs when the
  handler is called, the part after it when the awaited promise settles, and other handlers
  may run in between. The state setters of one part are applied together.
\<close>

subsection \<open>The bounded history\<close>

text \<open>\<^verbatim>\<open>xs.slice(-n)\<close>: the last \<open>n\<close> elements, all of them when there are fewer.\<close>

definition slice_last :: "nat \<Rightarrow> 'a list \<Rightarrow> 'a list" where
  "slice_last n xs = drop (length xs - n) xs"

text \<open>\<^verbatim>\<open>prev => [...prev, result].slice(-15)\<close> (lines 104 and 197 of App.tsx).\<close>

definition append_history :: "json list \<Rightarrow> json \<Rightarrow> json list" where
  "append_history prev result = slice_last 15 (prev @ [result])"

text \<open>
  The state cell \<^verbatim>\<open>analysisResult\<close> is \<^verbatim>\<open>AnalysisResult | null\<close>: a parsed \<^verbatim>\<open>null\<close> stored
  in it is the empty cell.
\<close>

definition nullable :: "json \<Rightarrow> json option" where
  "nullable v = (if v = JNull then None else Some v)"

subsection \<open>\<^verbatim>\<open>handleAnalyze\<close> (lines 93-110)\<close>

definition handleAnalyze :: "state \<Rightarrow> state" where
  "handleAnalyze s =
     (if (blank (inputText s) \<and> \<not> truthy (imageBase64 s)) \<or> isLoading s then s
      else s\<lparr> isLoading := True, error := None, analysisResult := None,
              feedbackState := Fb_none,
              calls := calls s @ [\<lparr> c_text = inputText s, c_language = language s,
                c_topic = socialTopic s, c_image = imageBase64 s,
                c_mime = imageMimeType s \<rparr>],
              pendingAnalyze := Suc (pendingAnalyze s) \<rparr>)"

text \<open>
  The continuation after the \<^verbatim>\<open>await\<close>: \<open>Inr\<close> is the resolved result, \<open>Inl\<close> the
  message of the \<^verbatim>\<open>Error\<close> thrown by \<^verbatim>\<open>analyzeContent\<close>, which throws nothing but
  \<^verbatim>\<open>Error\<close> objects, so that the handler always shows \<^verbatim>\<open>err.message\<close>.
\<close>

definition handleAnalyze_settle :: "string + json \<Rightarrow> state \<Rightarrow> state" where
  "handleAnalyze_settle outcome s =
     (let s1 = (case outcome of
                  Inr result \<Rightarrow>
                    s\<lparr> analysisResult := nullable result,
                       analysisHistory := append_history (analysisHistory s) result \<rparr>
                | Inl m \<Rightarrow> s\<lparr> error := Some (Literal m) \<rparr>)
      in s1\<lparr> isLoading := False \<rparr>)"

subsection \<open>\<^verbatim>\<open>handleRemoveImage\<close> (lines 149-155)\<close>

text \<open>The value of the file input, which the handler also resets, is not part of the state.\<close>

definition handleRemoveImage :: "state \<Rightarrow> state" where
  "handleRemoveImage s = s\<lparr> imageBase64 := None, imageMimeType := None \<rparr>"

subsection \<open>\<^verbatim>\<open>stopScreenSharing\<close> (lines 157-171)\<close>

text \<open>
  Timer handles are positive and a stream is an object, so the three tests of the refs are
  tests for \<^verbatim>\<open>null\<close>. \<^verbatim>\<open>clearInterval\<close> drops the handle from the timer table;
  \<^verbatim>\<open>track.stop()\<close> ends the tracks of the stream.
\<close>

definition clearTimer :: "nat \<Rightarrow> (nat \<times> nat) list \<Rightarrow> (nat \<times> nat) list" where
  "clearTimer h tab = filter (\<lambda>e. fst e \<noteq> h) tab"

definition stopScreenSharing :: "state \<Rightarrow> state" where
  "stopScreenSharing s =
     (let s1 = (case analysisIntervalRef s of
                  Some h \<Rightarrow> s\<lparr> intervals := clearTimer h (intervals s),
                               analysisIntervalRef := None \<rparr>
                | None \<Rightarrow> s);
          s2 = (case mediaStreamRef s1 of
                  Some m \<Rightarrow> s1\<lparr> liveStreams := removeAll m (liveStreams s1),
                                mediaStreamRef := None \<rparr>
                | None \<Rightarrow> s1);
          s3 = (case videoRef s2 of
                  Some v \<Rightarrow> s2\<lparr> videoRef := Some (v\<lparr> srcObject := None \<rparr>) \<rparr>
                | None \<Rightarrow> s2)
      in s3\<lparr> isScreenSharing := False, analysisResult := None \<rparr>)"

subsection \<open>\<^verbatim>\<open>handleImageChange\<close> (lines 130-147)\<close>

definition handleImageChange :: "upload option \<Rightarrow> state \<Rightarrow> state" where
  "handleImageChange f s =
     (case f of
        None \<Rightarrow> s
      | Some file \<Rightarrow>
          if fsize file > 4 * 1024 * 1024
          then s\<lparr> error := Some (Translated (language s) ''imageSizeError'') \<rparr>
          else (stopScreenSharing s)\<lparr> pendingFiles :=
                  pendingFiles s @ [(ftype file, language s)] \<rparr>)"

text \<open>
  The continuation: \<open>Some base64\<close> when the reader loaded the file, \<open>None\<close> when it
  failed. The MIME type and the language are the ones the handler captured.
\<close>

definition handleImageChange_settle ::
  "string \<times> Language \<Rightarrow> string option \<Rightarrow> state \<Rightarrow> state" where
  "handleImageChange_settle cap loaded s =
     (case loaded of
        Some base64 \<Rightarrow>
          s\<lparr> imageBase64 := Some base64, imageMimeType := Some (fst cap), error := None \<rparr>
      | None \<Rightarrow> s\<lparr> error := Some (Translated (snd cap) ''imageLoadError'') \<rparr>)"

subsection \<open>\<^verbatim>\<open>analyzeFrame\<close> (lines 173-206)\<close>

text \<open>
  The argument is what the canvas gives: \<open>None\<close> when \<^verbatim>\<open>getContext\<close> returns
  \<^verbatim>\<open>null\<close>, otherwise the base64 part of the encoded frame.
\<close>

definition analyzeFrame :: "string option \<Rightarrow> state \<Rightarrow> state" where
  "analyzeFrame capture s =
     (if isAnalyzingFrameRef s \<or> videoRef s = None then s
      else (case capture of
              None \<Rightarrow> s\<lparr> isAnalyzingFrameRef := False \<rparr>
            | Some frameBase64 \<Rightarrow>
                s\<lparr> isAnalyzingFrameRef := True, isAnalyzingFrame := True, error := None,
                   feedbackState := Fb_none,
                   calls := calls s @ [\<lparr> c_text = inputText s, c_language = language s,
                     c_topic = socialTopic s, c_image = Some frameBase64,
                     c_mime = Some ''image/jpeg'' \<rparr>],
                   pendingFrame := Suc (pendingFrame s) \<rparr>))"

definition analyzeFrame_settle :: "string + json \<Rightarrow> state \<Rightarrow> state" where
  "analyzeFrame_settle outcome s =
     (let s1 = (case outcome of
                  Inr result \<Rightarrow>
                    if mediaStreamRef s \<noteq> None
                    then s\<lparr> analysisResult := nullable result,
                            analysisHistory := append_history (analysisHistory s) result \<rparr>
                    else s
                | Inl m \<Rightarrow> stopScreenSharing (s\<lparr> error := Some (Literal m) \<rparr>))
      in s1\<lparr> isAnalyzingFrame := False, isAnalyzingFrameRef := False \<rparr>)"

subsection \<open>\<^verbatim>\<open>startScreenSharing\<close> (lines 213-233)\<close>

definition startScreenSharing :: "state \<Rightarrow> state" where
  "startScreenSharing s = (handleRemoveImage s)\<lparr> pendingShare := Suc (pendingShare s) \<rparr>"

text \<open>
  The continuation: \<open>True\<close> when \<^verbatim>\<open>getDisplayMedia\<close> resolved with a new stream (its
  tracks live), \<open>False\<close> when it rejected.
\<close>

definition startScreenSharing_settle :: "bool \<Rightarrow> state \<Rightarrow> state" where
  "startScreenSharing_settle granted s =
     (if granted then
        (let m = nextStream s;
             s1 = s\<lparr> nextStream := Suc m, liveStreams := m # liveStreams s,
                     mediaStreamRef := Some m \<rparr>;
             s2 = (case videoRef s1 of
                     Some v \<Rightarrow> s1\<lparr> videoRef := Some (v\<lparr> srcObject := Some m \<rparr>) \<rparr>
                   | None \<Rightarrow> s1);
             s3 = s2\<lparr> isScreenSharing := True \<rparr>;
             h = nextTimer s3
         in s3\<lparr> intervals := intervals s3 @ [(h, 5000)], nextTimer := Suc h,
                 analysisIntervalRef := Some h \<rparr>)
      else s\<lparr> error := Some (Literal
                 ''Failed to start screen sharing. Please ensure permissions are granted.''),
               isScreenSharing := False \<rparr>)"

section \<open>Rendering, effects and events\<close>

text \<open>
  After the setters of a handler React renders and runs the effects whose dependencies
  changed. \<open>commit old s\<close> does that for the state \<open>s\<close> the handler left, \<open>old\<close> being
  the state of the previous render.
\<close>

text \<open>The video element is rendered under \<^verbatim>\<open>{isScreenSharing && ...}\<close> (line 435).\<close>

definition render_video :: "state \<Rightarrow> state \<Rightarrow> state" where
  "render_video old s =
     (if isScreenSharing s = isScreenSharing old then s
      else if isScreenSharing s then s\<lparr> videoRef := Some \<lparr> srcObject = None \<rparr> \<rparr>
      else s\<lparr> videoRef := None \<rparr>)"

text \<open>
  The debounce effect (lines 322-332): first the clean-up of its previous run
  (\<^verbatim>\<open>clearTimeout(handler)\<close>), then its body.
\<close>

definition debounce_effect :: "state \<Rightarrow> state" where
  "debounce_effect s =
     (let s1 = (case debounceCleanup s of
                  Some h \<Rightarrow> s\<lparr> timeouts := clearTimer h (timeouts s) \<rparr>
                | None \<Rightarrow> s)
      in if isScreenSharing s1 \<or> truthy (imageBase64 s1) \<or> blank (inputText s1)
         then s1\<lparr> debounceCleanup := None \<rparr>
         else s1\<lparr> timeouts := timeouts s1 @ [(nextTimer s1, now s1 + 1000)],
                  debounceCleanup := Some (nextTimer s1),
                  nextTimer := Suc (nextTimer s1) \<rparr>)"

text \<open>The effect that clears the results when the input is cleared (lines 335-342).\<close>

definition clear_effect :: "state \<Rightarrow> state" where
  "clear_effect s =
     (if blank (inputText s) \<and> \<not> truthy (imageBase64 s) \<and> \<not> isScreenSharing s
      then s\<lparr> analysisResult := None, error := None, feedbackState := Fb_none,
              analysisHistory := [] \<rparr>
      else s)"

text \<open>Both effects depend on \<^verbatim>\<open>[inputText, imageBase64, isScreenSharing]\<close>.\<close>

definition deps :: "state \<Rightarrow> jsstring \<times> string option \<times> bool" where
  "deps s = (inputText s, imageBase64 s, isScreenSharing s)"

definition commit :: "state \<Rightarrow> state \<Rightarrow> state" where
  "commit old s =
     (let s1 = render_video old s
      in if deps s1 = deps old then s1 else clear_effect (debounce_effect s1))"

text \<open>
  A timeout that is due calls \<^verbatim>\<open>analysisFnRef.current()\<close>, which is \<^verbatim>\<open>handleAnalyze\<close> of the
  latest render, and leaves the timer table.
\<close>

fun fire_due :: "(nat \<times> nat) list \<Rightarrow> state \<Rightarrow> state" where
  "fire_due [] s = s"
| "fire_due ((h, due) # tab) s =
     fire_due tab
       (if due \<le> now s then handleAnalyze (s\<lparr> timeouts := clearTimer h (timeouts s) \<rparr>)
        else s)"

definition elapse :: "nat \<Rightarrow> state \<Rightarrow> state" where
  "elapse d s = (let s1 = s\<lparr> now := now s + d \<rparr> in fire_due (timeouts s1) s1)"

text \<open>
  What can happen to the component. A click reaches its handler only when the button is
  not disabled (lines 470-500); a promise settles only when one is pending; an interval
  ticks only while it is in the timer table; the file input changes only after its dialogue
  was opened. \<open>SetInputText\<close> is the text area's \<^verbatim>\<open>onChange\<close> and the recognition's
  \<^verbatim>\<open>onresult\<close>, which is not disabled by \<open>isLoading\<close>. File reads settle in the order
  they were started.
\<close>

datatype event =
    SetInputText jsstring
  | SetLanguage Language
  | SetSocialTopic SocialTopic
  | ClickAnalyze
  | AnalyzeSettled "string + json"
  | ClickUpload
  | FileChosen "upload option"
  | FileSettled "string option"
  | ClickRemoveImage
  | ClickShare
  | DisplayMediaSettled bool
  | TrackEnded nat
  | IntervalTick nat "string option"
  | FrameSettled "string + json"
  | Feedback
  | Elapse nat

fun react :: "event \<Rightarrow> state \<Rightarrow> state" where
  "react (SetInputText t) s = s\<lparr> inputText := t \<rparr>"
| "react (SetLanguage l) s = s\<lparr> language := l \<rparr>"
| "react (SetSocialTopic t) s = (if isLoading s then s else s\<lparr> socialTopic := t \<rparr>)"
| "react ClickAnalyze s =
     (if isLoading s \<or> (blank (inputText s) \<and> \<not> truthy (imageBase64 s)) \<or> isScreenSharing s
      then s else handleAnalyze s)"
| "react (AnalyzeSettled outcome) s =
     (if pendingAnalyze s = 0 then s
      else handleAnalyze_settle outcome (s\<lparr> pendingAnalyze := pendingAnalyze s - 1 \<rparr>))"
| "react ClickUpload s =
     (if isLoading s \<or> isScreenSharing s then s else s\<lparr> fileDialogOpen := True \<rparr>)"
| "react (FileChosen f) s =
     (if fileDialogOpen s then handleImageChange f (s\<lparr> fileDialogOpen := False \<rparr>) else s)"
| "react (FileSettled loaded) s =
     (case pendingFiles s of
        [] \<Rightarrow> s
      | cap # rest \<Rightarrow> handleImageChange_settle cap loaded (s\<lparr> pendingFiles := rest \<rparr>))"
| "react ClickRemoveImage s =
     (if truthy (imageBase64 s) \<and> \<not> isScreenSharing s then handleRemoveImage s else s)"
| "react ClickShare s =
     (if isLoading s then s
      else if isScreenSharing s then stopScreenSharing s
      else startScreenSharing s)"
| "react (DisplayMediaSettled granted) s =
     (if pendingShare s = 0 then s
      else startScreenSharing_settle granted (s\<lparr> pendingShare := pendingShare s - 1 \<rparr>))"
| "react (TrackEnded m) s =
     (if m \<in> set (liveStreams s)
      then stopScreenSharing (s\<lparr> liveStreams := removeAll m (liveStreams s) \<rparr>)
      else s)"
| "react (IntervalTick h capture) s =
     (if h \<in> set (map fst (intervals s)) then analyzeFrame capture s else s)"
| "react (FrameSettled outcome) s =
     (if pendingFrame s = 0 then s
      else analyzeFrame_settle outcome (s\<lparr> pendingFrame := pendingFrame s - 1 \<rparr>))"
| "react Feedback s =
     (if truthy_value (analysisResult s) then s\<lparr> feedbackState := Fb_submitted \<rparr> else s)"
| "react (Elapse d) s = elapse d s"

definition step :: "event \<Rightarrow> state \<Rightarrow> state" where
  "step e s = commit s (react e s)"

fun run :: "event list \<Rightarrow> state \<Rightarrow> state" where
  "run [] s = s"
| "run (e # es) s = run es (step e s)"

text \<open>A run of successful analyses, each appended by one of the two flows.\<close>

datatype flow = Manual | Frame

fun succeed :: "flow \<times> json \<Rightarrow> state \<Rightarrow> state" where
  "succeed (Manual, result) s = handleAnalyze_settle (Inr result) s"
| "succeed (Frame, result) s = analyzeFrame_settle (Inr result) s"

fun successes :: "(flow \<times> json) list \<Rightarrow> state \<Rightarrow> state" where
  "successes [] s = s"
| "successes (x # xs) s = successes xs (succeed x s)"

section \<open>Bursts, invariants and sample inputs\<close>

text \<open>
  A burst of text changes after a first one: each pair is the time since the previous
  change and the new text.
\<close>

fun burst :: "(nat \<times> jsstring) list \<Rightarrow> event list" where
  "burst [] = []"
| "burst ((d, t) # r) = Elapse d # SetInputText t # burst r"

text \<open>Every pending timeout is the one the debounce effect's clean-up will clear.\<close>

definition timer_inv :: "state \<Rightarrow> bool" where
  "timer_inv s = list_all (\<lambda>e. debounceCleanup s = Some (fst e)) (timeouts s)"

text \<open>
  The timer table right after a text change with no image and no screen share: empty for a
  blank text, otherwise the one timeout just set, due in 1000 ms.
\<close>

definition fresh_timer :: "state \<Rightarrow> bool" where
  "fresh_timer s =
     (case debounceCleanup s of
        None \<Rightarrow> timeouts s = [] \<and> blank (inputText s)
      | Some h \<Rightarrow> timeouts s = [(h, now s + 1000)] \<and> \<not> blank (inputText s))"

definition same_session :: "state \<Rightarrow> state \<Rightarrow> bool" where
  "same_session s s' =
     (calls s' = calls s \<and> language s' = language s \<and> socialTopic s' = socialTopic s
      \<and> imageBase64 s' = imageBase64 s \<and> imageMimeType s' = imageMimeType s
      \<and> isLoading s' = isLoading s \<and> isScreenSharing s' = isScreenSharing s)"

text \<open>The in-flight flag of the frame flow is set exactly while one frame call is pending.\<close>

definition frame_inv :: "state \<Rightarrow> bool" where
  "frame_inv s = (pendingFrame s = (if isAnalyzingFrameRef s then 1 else 0))"

text \<open>
  A stand-in for \<^verbatim>\<open>JSON.parse\<close> in the examples: right on the text of the empty object and
  on a text that is not JSON, and applied to no other text.
\<close>

definition JSON_parse_sample :: "jsstring \<Rightarrow> string + json" where
  "JSON_parse_sample s = (if s = js ''{}'' then Inr (JObject []) else Inl ''Unexpected token'')"

text \<open>A screen share is started and its first tick sends a frame.\<close>

definition first_frame_sent :: "event list" where
  "first_frame_sent = [ClickShare, DisplayMediaSettled True, IntervalTick 1 (Some ''AAAA'')]"

text \<open>A result that has every field of the schema.\<close>

definition sample_result :: json where
  "sample_result = JObject
     [(''temperature'', JNumber 40), (''emotion'', JString ''Neutral''),
      (''suggestion'', JString ''Thanks for telling me.''),
      (''explanation'', JString ''It acknowledges the other side.''),
      (''recipientImpact'', JObject
         [(''predictedFeeling'', JString ''Understood''),
          (''impactExplanation'', JString ''It lowers the tension.'')])]"


section \<open>Properties\<close>

subsection \<open>Unfolding and frame lemmas\<close>

lemmas handler_defs = handleAnalyze_def handleAnalyze_settle_def
  handleImageChange_def handleImageChange_settle_def handleRemoveImage_def
  stopScreenSharing_def startScreenSharing_def startScreenSharing_settle_def
  analyzeFrame_def analyzeFrame_settle_def

lemmas effect_defs = commit_def render_video_def deps_def debounce_effect_def clear_effect_def

lemmas eval_defs = step_def effect_defs handler_defs elapse_def clearTimer_def
  blank_def trim_def truthy_def is_ws_def init_def append_history_def slice_last_def
  nullable_def js_def Let_def

lemma commit_same: "commit s s = s"
  by (simp add: commit_def render_video_def)

lemma commit_no_deps: "deps s' = deps s \<Longrightarrow> commit s s' = s'"
  by (simp add: commit_def render_video_def deps_def)

lemma commit_keeps:
  "calls (commit old s) = calls s"
  "pendingFrame (commit old s) = pendingFrame s"
  "isAnalyzingFrameRef (commit old s) = isAnalyzingFrameRef s"
  "isAnalyzingFrame (commit old s) = isAnalyzingFrame s"
  "isLoading (commit old s) = isLoading s"
  "inputText (commit old s) = inputText s"
  "imageBase64 (commit old s) = imageBase64 s"
  "imageMimeType (commit old s) = imageMimeType s"
  "isScreenSharing (commit old s) = isScreenSharing s"
  "mediaStreamRef (commit old s) = mediaStreamRef s"
  "analysisIntervalRef (commit old s) = analysisIntervalRef s"
  "intervals (commit old s) = intervals s"
  "liveStreams (commit old s) = liveStreams s"
  "language (commit old s) = language s"
  "socialTopic (commit old s) = socialTopic s"
  "pendingAnalyze (commit old s) = pendingAnalyze s"
  "pendingFiles (commit old s) = pendingFiles s"
  "now (commit old s) = now s"
  by (simp_all add: effect_defs Let_def split: option.splits)

lemma handleAnalyze_keeps:
  "pendingFrame (handleAnalyze s) = pendingFrame s"
  "isAnalyzingFrameRef (handleAnalyze s) = isAnalyzingFrameRef s"
  "timeouts (handleAnalyze s) = timeouts s"
  "debounceCleanup (handleAnalyze s) = debounceCleanup s"
  "intervals (handleAnalyze s) = intervals s"
  "analysisHistory (handleAnalyze s) = analysisHistory s"
  by (simp_all add: handleAnalyze_def)

lemma fire_due_keeps:
  "pendingFrame (fire_due tab s) = pendingFrame s"
  "isAnalyzingFrameRef (fire_due tab s) = isAnalyzingFrameRef s"
  "debounceCleanup (fire_due tab s) = debounceCleanup s"
  "intervals (fire_due tab s) = intervals s"
  "analysisHistory (fire_due tab s) = analysisHistory s"
  by (induction tab s rule: fire_due.induct; simp add: handleAnalyze_keeps)+

lemma fire_due_timeouts: "set (timeouts (fire_due tab s)) \<subseteq> set (timeouts s)"
  by (induction tab s rule: fire_due.induct)
     (auto simp: handleAnalyze_keeps clearTimer_def split: if_splits)

lemma stopScreenSharing_result:
  "mediaStreamRef (stopScreenSharing s) = None"
  "analysisResult (stopScreenSharing s) = None"
  "analysisHistory (stopScreenSharing s) = analysisHistory s"
  "analysisIntervalRef (stopScreenSharing s) = None"
  "isScreenSharing (stopScreenSharing s) = False"
  "inputText (stopScreenSharing s) = inputText s"
  "imageBase64 (stopScreenSharing s) = imageBase64 s"
  "imageMimeType (stopScreenSharing s) = imageMimeType s"
  "error (stopScreenSharing s) = error s"
  "calls (stopScreenSharing s) = calls s"
  "pendingFiles (stopScreenSharing s) = pendingFiles s"
  "language (stopScreenSharing s) = language s"
  by (simp_all add: stopScreenSharing_def Let_def split: option.splits)

lemma stopScreenSharing_videoRef:
  "videoRef (stopScreenSharing s)
     = (case videoRef s of None \<Rightarrow> None | Some v \<Rightarrow> Some (v\<lparr> srcObject := None \<rparr>))"
  by (simp add: stopScreenSharing_def Let_def split: option.splits)

lemma commit_videoRef:
  "videoRef (commit old s)
     = (if isScreenSharing s = isScreenSharing old then videoRef s
        else if isScreenSharing s then Some \<lparr> srcObject = None \<rparr> else None)"
  by (simp add: effect_defs Let_def split: option.splits)

lemma commit_reset_error:
  assumes "inputText r = inputText s" "imageBase64 r = imageBase64 s" "\<not> isScreenSharing r"
    and "isScreenSharing s" "blank (inputText s)" "\<not> truthy (imageBase64 s)"
  shows "error (commit s r) = None"
  using assms by (auto simp: effect_defs Let_def split: option.splits)

lemma run_append: "run (es @ fs) s = run fs (run es s)"
  by (induction es arbitrary: s) simp_all

subsection \<open>The bounded history\<close>

lemma slice_last_absorb: "slice_last n (slice_last n xs @ ys) = slice_last n (xs @ ys)"
  by (cases "length xs \<le> n") (simp_all add: slice_last_def add.commute)

lemma succeed_history:
  "mediaStreamRef s \<noteq> None \<or> fst x = Manual \<Longrightarrow>
   analysisHistory (succeed x s) = append_history (analysisHistory s) (snd x)"
  by (cases x; cases "fst x") (auto simp: handleAnalyze_settle_def analyzeFrame_settle_def)

lemma succeed_stream: "mediaStreamRef (succeed x s) = mediaStreamRef s"
  by (cases x; cases "fst x") (auto simp: handleAnalyze_settle_def analyzeFrame_settle_def)

lemma successes_history:
  "mediaStreamRef s \<noteq> None \<or> Frame \<notin> set (map fst xs) \<Longrightarrow>
   analysisHistory (successes xs s) =
     (if xs = [] then analysisHistory s else slice_last 15 (analysisHistory s @ map snd xs))"
proof (induction xs arbitrary: s)
  case Nil
  then show ?case by simp
next
  case (Cons x xs)
  have 1: "mediaStreamRef s \<noteq> None \<or> fst x = Manual"
    using Cons.prems by (cases "fst x") auto
  have 2: "mediaStreamRef (succeed x s) \<noteq> None \<or> Frame \<notin> set (map fst xs)"
    using Cons.prems by (auto simp: succeed_stream)
  show ?case
    using Cons.IH[OF 2] succeed_history[OF 1]
    by (simp add: append_history_def slice_last_absorb)
qed

lemma append_history_bound: "length (append_history prev r) \<le> 15"
  by (simp add: append_history_def slice_last_def)

lemma react_history_bound:
  "length (analysisHistory s) \<le> 15 \<Longrightarrow> length (analysisHistory (react e s)) \<le> 15"
  by (cases e)
     (auto simp: handler_defs elapse_def Let_def fire_due_keeps append_history_bound
        split: option.splits sum.splits list.splits)

lemma commit_history_bound:
  "length (analysisHistory s) \<le> 15 \<Longrightarrow> length (analysisHistory (commit old s)) \<le> 15"
  by (simp add: effect_defs Let_def split: option.splits)

lemma run_history_bound:
  "length (analysisHistory s) \<le> 15 \<Longrightarrow> length (analysisHistory (run es s)) \<le> 15"
  by (induction es arbitrary: s) (simp_all add: step_def react_history_bound commit_history_bound)

text \<open>
  Claim C2. The history of every reachable state has at most 15 entries. Starting from an
  empty history, after any sequence of successful analyses, each appended by the
  manual/auto flow or by the frame flow (the capture stream being active when a frame
  result is applied), the history holds exactly the last \<open>min n 15\<close> results in completion
  order: the oldest entries are the ones evicted.
\<close>

theorem history_keeps_last_15:
  assumes "analysisHistory s = []"
    and "mediaStreamRef s \<noteq> None \<or> Frame \<notin> set (map fst xs)"
  shows "length (analysisHistory (run es init)) \<le> 15
       \<and> analysisHistory (successes xs s) = slice_last 15 (map snd xs)
       \<and> length (analysisHistory (successes xs s)) = min (length xs) 15"
proof -
  have "length (analysisHistory (run es init)) \<le> 15"
    by (rule run_history_bound) (simp add: init_def)
  then show ?thesis
    using successes_history[OF assms(2)] assms(1) by (auto simp: slice_last_def)
qed

text \<open>Twenty successes, alternating between the two flows: the last fifteen remain.\<close>

theorem history_keeps_last_15_witness:
  "analysisHistory (init\<lparr> mediaStreamRef := Some 0 \<rparr>) = []
   \<and> mediaStreamRef (init\<lparr> mediaStreamRef := Some 0 \<rparr>) \<noteq> None
   \<and> analysisHistory
        (successes
          (map (\<lambda>i. (if i mod 2 = 0 then Frame else Manual, JNumber i))
            [1, 2, 3, 4, 5, 6, 7, 8, 9, 10, 11, 12, 13, 14, 15, 16, 17, 18, 19, 20])
          (init\<lparr> mediaStreamRef := Some 0 \<rparr>))
       = map JNumber [6, 7, 8, 9, 10, 11, 12, 13, 14, 15, 16, 17, 18, 19, 20]
   \<and> length (analysisHistory
        (successes
          (map (\<lambda>i. (if i mod 2 = 0 then Frame else Manual, JNumber i))
            [1, 2, 3, 4, 5, 6, 7, 8, 9, 10, 11, 12, 13, 14, 15, 16, 17, 18, 19, 20])
          (init\<lparr> mediaStreamRef := Some 0 \<rparr>))) = 15"
  using history_keeps_last_15[of "init\<lparr> mediaStreamRef := Some 0 \<rparr>"
      "map (\<lambda>i. (if i mod 2 = 0 then Frame else Manual, JNumber i))
            [1, 2, 3, 4, 5, 6, 7, 8, 9, 10, 11, 12, 13, 14, 15, 16, 17, 18, 19, 20]"]
  by (simp add: init_def slice_last_def)

subsection \<open>The debounced auto-analysis\<close>

lemma react_timer_inv: "timer_inv s \<Longrightarrow> timer_inv (react e s)"
proof (cases e)
  case (Elapse d)
  assume "timer_inv s"
  then show ?thesis
    using fire_due_timeouts[of "timeouts s" "s\<lparr> now := now s + d \<rparr>"]
    by (auto simp: Elapse elapse_def timer_inv_def list_all_iff fire_due_keeps)
qed (auto simp: timer_inv_def handler_defs Let_def split: option.splits sum.splits list.splits)

lemma timer_inv_cleared:
  "timer_inv s \<Longrightarrow>
   (case debounceCleanup s of Some h \<Rightarrow> clearTimer h (timeouts s) | None \<Rightarrow> timeouts s) = []"
  by (cases "debounceCleanup s"; cases "timeouts s")
     (auto simp: timer_inv_def clearTimer_def list_all_iff filter_empty_conv)

lemma debounce_effect_timer_inv: "timer_inv s \<Longrightarrow> timer_inv (debounce_effect s)"
  using timer_inv_cleared[of s]
  by (cases "debounceCleanup s") (auto simp: debounce_effect_def timer_inv_def Let_def)

lemma commit_timer_inv: "timer_inv s \<Longrightarrow> timer_inv (commit old s)"
proof -
  assume a: "timer_inv s"
  have 1: "timer_inv (render_video old s)"
    using a by (simp add: render_video_def timer_inv_def)
  have 2: "timer_inv (clear_effect (debounce_effect (render_video old s)))"
    using debounce_effect_timer_inv[OF 1] by (simp add: clear_effect_def timer_inv_def)
  show ?thesis using 1 2 by (simp add: commit_def Let_def)
qed

lemma run_timer_inv: "timer_inv s \<Longrightarrow> timer_inv (run es s)"
  by (induction es arbitrary: s) (simp_all add: step_def react_timer_inv commit_timer_inv)

text \<open>
  The debounce timer is a single slot: in every reachable state the only timeout that can
  be pending is the one the next clean-up clears.
\<close>

lemma timer_inv_reachable: "timer_inv (run es init)"
  by (rule run_timer_inv) (simp add: timer_inv_def init_def)

lemma debounce_effect_fresh:
  assumes "timer_inv s" "\<not> truthy (imageBase64 s)" "\<not> isScreenSharing s"
  shows "fresh_timer (debounce_effect s)"
  using timer_inv_cleared[OF assms(1)] assms(2,3)
  by (cases "debounceCleanup s") (auto simp: debounce_effect_def fresh_timer_def Let_def)

lemma debounce_effect_keeps:
  "calls (debounce_effect s) = calls s"
  "language (debounce_effect s) = language s"
  "socialTopic (debounce_effect s) = socialTopic s"
  "imageBase64 (debounce_effect s) = imageBase64 s"
  "imageMimeType (debounce_effect s) = imageMimeType s"
  "isLoading (debounce_effect s) = isLoading s"
  "isScreenSharing (debounce_effect s) = isScreenSharing s"
  "inputText (debounce_effect s) = inputText s"
  "now (debounce_effect s) = now s"
  by (simp_all add: debounce_effect_def Let_def split: option.splits)

lemma clear_effect_fresh: "fresh_timer (clear_effect s) = fresh_timer s"
  by (cases "debounceCleanup s") (simp_all add: clear_effect_def fresh_timer_def)

lemma clear_effect_keeps:
  "calls (clear_effect s) = calls s"
  "language (clear_effect s) = language s"
  "socialTopic (clear_effect s) = socialTopic s"
  "imageBase64 (clear_effect s) = imageBase64 s"
  "imageMimeType (clear_effect s) = imageMimeType s"
  "isLoading (clear_effect s) = isLoading s"
  "isScreenSharing (clear_effect s) = isScreenSharing s"
  "inputText (clear_effect s) = inputText s"
  "now (clear_effect s) = now s"
  by (simp_all add: clear_effect_def)

text \<open>A text change cancels the pending timeout and sets at most one new one.\<close>

lemma text_change:
  assumes "timer_inv s" "\<not> truthy (imageBase64 s)" "\<not> isScreenSharing s" "t \<noteq> inputText s"
  shows "fresh_timer (step (SetInputText t) s)
       \<and> same_session s (step (SetInputText t) s)
       \<and> inputText (step (SetInputText t) s) = t
       \<and> now (step (SetInputText t) s) = now s"
proof -
  let ?s1 = "s\<lparr> inputText := t \<rparr>"
  have inv1: "timer_inv ?s1" using assms(1) by (simp add: timer_inv_def)
  have st: "step (SetInputText t) s = clear_effect (debounce_effect ?s1)"
    using assms(4) by (simp add: step_def commit_def render_video_def deps_def)
  have "fresh_timer (debounce_effect ?s1)"
    using debounce_effect_fresh[OF inv1] assms(2,3) by simp
  then show ?thesis
    unfolding st
    by (simp add: clear_effect_fresh same_session_def clear_effect_keeps debounce_effect_keeps)
qed

lemma short_wait:
  assumes "fresh_timer s" "d < 1000"
  shows "step (Elapse d) s = s\<lparr> now := now s + d \<rparr>"
  using assms
  by (cases "debounceCleanup s")
     (auto simp: fresh_timer_def step_def elapse_def commit_def render_video_def deps_def)

lemma fresh_timer_inv: "fresh_timer s \<Longrightarrow> timer_inv (s\<lparr> now := n \<rparr>)"
  by (cases "debounceCleanup s") (auto simp: fresh_timer_def timer_inv_def)

lemma burst_quiet:
  assumes "fresh_timer s" "\<not> truthy (imageBase64 s)" "\<not> isScreenSharing s"
    and "list_all (\<lambda>e. fst e < 1000) r"
    and "distinct_adj (inputText s # map snd r)"
  shows "fresh_timer (run (burst r) s) \<and> same_session s (run (burst r) s)
       \<and> inputText (run (burst r) s) = last (inputText s # map snd r)
       \<and> now (run (burst r) s) = now s + sum_list (map fst r)"
  using assms
proof (induction r arbitrary: s)
  case Nil
  then show ?case by (simp add: same_session_def)
next
  case (Cons e r)
  obtain d t where e: "e = (d, t)" by (cases e)
  let ?s1 = "s\<lparr> now := now s + d \<rparr>"
  let ?s2 = "step (SetInputText t) ?s1"
  have d: "d < 1000" using Cons.prems(4) e by simp
  have ne: "t \<noteq> inputText s" using Cons.prems(5) e by auto
  have w: "step (Elapse d) s = ?s1" using short_wait[OF Cons.prems(1) d] .
  have c: "fresh_timer ?s2 \<and> same_session ?s1 ?s2 \<and> inputText ?s2 = t \<and> now ?s2 = now ?s1"
    using text_change[OF fresh_timer_inv[OF Cons.prems(1)], of "now s + d" t]
      Cons.prems(2,3) ne by simp
  have ih: "fresh_timer (run (burst r) ?s2) \<and> same_session ?s2 (run (burst r) ?s2)
       \<and> inputText (run (burst r) ?s2) = last (inputText ?s2 # map snd r)
       \<and> now (run (burst r) ?s2) = now ?s2 + sum_list (map fst r)"
    using Cons.IH[of ?s2] c Cons.prems(2,3,4,5) e
    by (simp add: same_session_def)
  show ?case
    using ih c by (simp add: e w same_session_def)
qed

lemma long_wait:
  assumes "fresh_timer s" "\<not> isLoading s" "1000 \<le> D"
  shows "calls (step (Elapse D) s) =
           calls s @ (if blank (inputText s) then []
             else [\<lparr> c_text = inputText s, c_language = language s,
               c_topic = socialTopic s, c_image = imageBase64 s,
               c_mime = imageMimeType s \<rparr>])
       \<and> timeouts (step (Elapse D) s) = []"
  using assms
  by (cases "debounceCleanup s")
     (auto simp: fresh_timer_def step_def elapse_def commit_def render_video_def deps_def
        handleAnalyze_def clearTimer_def)

text \<open>
  Claim C1, as amended. Take a state with no image attached, no screen share and no
  manual/auto analysis loading, in which the only pending timeout is the debounce effect's
  (as in every reachable state). A burst is a first change of the text followed by further
  changes, each a real change and each less than 1000 ms after the previous one. During
  the burst no analysis call is made, and when it ends exactly one timeout is pending, due
  1000 ms after the last change, if the final text is not blank, and none if it is blank
  (empty once trimmed):
  every change cancelled the timeout before it. Once 1000 ms or more have passed, exactly
  one call has been made, with the final text, if that text is not blank, and none if it
  is blank; no timeout is left.
\<close>

theorem debounce_burst_one_call:
  assumes "timer_inv s" and "\<not> isLoading s"
    and "\<not> truthy (imageBase64 s)" and "\<not> isScreenSharing s"
    and "distinct_adj (inputText s # t # map snd r)"
    and "list_all (\<lambda>e. fst e < 1000) r"
    and "1000 \<le> D"
  shows "calls (run (SetInputText t # burst r) s) = calls s
       \<and> map snd (timeouts (run (SetInputText t # burst r) s))
           = (if blank (last (t # map snd r)) then []
              else [now s + sum_list (map fst r) + 1000])
       \<and> calls (run (SetInputText t # burst r @ [Elapse D]) s)
           = calls s @ (if blank (last (t # map snd r)) then []
               else [\<lparr> c_text = last (t # map snd r), c_language = language s,
                 c_topic = socialTopic s, c_image = imageBase64 s,
                 c_mime = imageMimeType s \<rparr>])
       \<and> timeouts (run (SetInputText t # burst r @ [Elapse D]) s) = []"
proof -
  let ?s1 = "step (SetInputText t) s"
  let ?s2 = "run (burst r) ?s1"
  have ne: "t \<noteq> inputText s" using assms(5) by auto
  have c: "fresh_timer ?s1 \<and> same_session s ?s1 \<and> inputText ?s1 = t \<and> now ?s1 = now s"
    using text_change[OF assms(1,3,4) ne] .
  have b: "fresh_timer ?s2 \<and> same_session ?s1 ?s2
       \<and> inputText ?s2 = last (inputText ?s1 # map snd r)
       \<and> now ?s2 = now ?s1 + sum_list (map fst r)"
    using burst_quiet[of ?s1 r] c assms(3,4,5,6) by (simp add: same_session_def)
  have fin_text: "inputText ?s2 = last (t # map snd r)" using b c by simp
  have ses: "same_session s ?s2" using b c by (simp add: same_session_def)
  have clock: "now ?s2 = now s + sum_list (map fst r)" using b c by simp
  have one: "map snd (timeouts ?s2) = (if blank (last (t # map snd r)) then []
              else [now s + sum_list (map fst r) + 1000])"
    using b fin_text clock by (cases "debounceCleanup ?s2") (auto simp: fresh_timer_def)
  have idle: "\<not> isLoading ?s2" using ses assms(2) by (simp add: same_session_def)
  have fin: "calls (step (Elapse D) ?s2) =
           calls ?s2 @ (if blank (inputText ?s2) then []
             else [\<lparr> c_text = inputText ?s2, c_language = language ?s2,
               c_topic = socialTopic ?s2, c_image = imageBase64 ?s2,
               c_mime = imageMimeType ?s2 \<rparr>])
       \<and> timeouts (step (Elapse D) ?s2) = []"
    using long_wait[OF _ idle assms(7)] b by simp
  show ?thesis
    using one fin ses fin_text by (simp add: run_append same_session_def)
qed

lemma ev_idle:
  "timer_inv init" "isLoading init = False" "truthy (imageBase64 init) = False"
  "isScreenSharing init = False" "inputText init = []" "calls init = []" "now init = 0"
  "language init = En" "socialTopic init = General" "imageBase64 init = None"
  "imageMimeType init = None" "truthy None = False"
  "blank (js ''abc'') = False"
  "[] \<noteq> js ''a''" "js ''a'' \<noteq> js ''ab''" "js ''ab'' \<noteq> js ''abc''"
  by (simp_all add: timer_inv_def eval_defs)

text \<open>The texts "a", "ab", "abc" within 300 ms: one call, with "abc", 1000 ms later.\<close>

theorem debounce_burst_one_call_witness:
  "timer_inv init \<and> \<not> isLoading init \<and> \<not> truthy (imageBase64 init) \<and> \<not> isScreenSharing init
   \<and> distinct_adj (inputText init # js ''a'' # map snd [(100, js ''ab''), (200, js ''abc'')])
   \<and> list_all (\<lambda>e. fst e < 1000) [(100 :: nat, js ''ab''), (200, js ''abc'')]
   \<and> (1000 :: nat) \<le> 1000
   \<and> calls (run (SetInputText (js ''a'') # burst [(100, js ''ab''), (200, js ''abc'')]) init) = []
   \<and> map snd (timeouts (run (SetInputText (js ''a'') # burst [(100, js ''ab''), (200, js ''abc'')]) init))
       = [1300]
   \<and> calls (run (SetInputText (js ''a'') # burst [(100, js ''ab''), (200, js ''abc'')] @ [Elapse 1000]) init)
       = [\<lparr> c_text = js ''abc'', c_language = En, c_topic = General, c_image = None,
            c_mime = None \<rparr>]
   \<and> timeouts (run (SetInputText (js ''a'') # burst [(100, js ''ab''), (200, js ''abc'')] @ [Elapse 1000])
        init) = []"
  using debounce_burst_one_call[of init "js ''a''" "[(100, js ''ab''), (200, js ''abc'')]" 1000]
  by (simp add: ev_idle del: run.simps burst.simps)

text \<open>
  Claim C1 as stated fails. A burst that ends with the empty text, or with a text of
  white space only (here an ideographic space, U+3000), triggers no call at all. A burst
  that happens while an analysis is loading (the text is changed by dictation, the
  text area being disabled) triggers none either: its timeout fires into the guard of
  \<^verbatim>\<open>handleAnalyze\<close>, and the only call in the log is the earlier one.
\<close>

theorem debounce_burst_without_call:
  "calls (run (SetInputText (js ''a'') # burst [(100, [])] @ [Elapse 1000]) init) = []
   \<and> calls (run (SetInputText (js ''a'') # burst [(100, [0x3000])] @ [Elapse 1000]) init) = []
   \<and> isLoading (run [SetInputText (js ''a''), Elapse 1000] init)
   \<and> calls (run [SetInputText (js ''a''), Elapse 1000] init)
       = [\<lparr> c_text = js ''a'', c_language = En, c_topic = General, c_image = None,
            c_mime = None \<rparr>]
   \<and> calls (run (SetInputText (js ''ab'') # burst [(100, js ''abc'')] @ [Elapse 1000])
        (run [SetInputText (js ''a''), Elapse 1000] init))
       = [\<lparr> c_text = js ''a'', c_language = En, c_topic = General, c_image = None,
            c_mime = None \<rparr>]"
  by (simp add: eval_defs)

subsection \<open>The frame flow\<close>

lemma react_frame_inv: "frame_inv s \<Longrightarrow> frame_inv (react e s)"
  by (cases e)
     (auto simp: frame_inv_def handler_defs elapse_def Let_def fire_due_keeps
        split: option.splits sum.splits list.splits if_splits)

lemma run_frame_inv: "frame_inv s \<Longrightarrow> frame_inv (run es s)"
proof (induction es arbitrary: s)
  case Nil
  then show ?case by simp
next
  case (Cons e es)
  have "frame_inv (step e s)"
    using react_frame_inv[OF Cons.prems, of e] by (simp add: frame_inv_def step_def commit_keeps)
  then show ?case using Cons.IH by simp
qed

lemma react_period:
  "list_all (\<lambda>e. snd e = 5000) (intervals s) \<Longrightarrow>
   list_all (\<lambda>e. snd e = 5000) (intervals (react e s))"
  by (cases e)
     (auto simp: handler_defs elapse_def Let_def fire_due_keeps clearTimer_def list_all_iff
        split: option.splits sum.splits list.splits)

lemma run_period:
  "list_all (\<lambda>e. snd e = 5000) (intervals s) \<Longrightarrow>
   list_all (\<lambda>e. snd e = 5000) (intervals (run es s))"
  by (induction es arbitrary: s) (simp_all add: step_def react_period commit_keeps)

text \<open>
  Claim C5. In every reachable state the number of frame analyses in flight is 1 when the
  in-flight flag is set and 0 otherwise, so it never exceeds one, and every interval in
  the timer table has the period 5000 ms. A tick that fires while the flag is set leaves
  the state as it is: no frame is captured, no call is made, nothing is queued. The flag
  is cleared on every path that ends a frame analysis: when no drawing context is
  available, and when the call settles, with a result or with an error.
\<close>

theorem one_frame_in_flight:
  "pendingFrame (run es init) = (if isAnalyzingFrameRef (run es init) then 1 else 0)
   \<and> list_all (\<lambda>e. snd e = 5000) (intervals (run es init))
   \<and> (isAnalyzingFrameRef s \<longrightarrow> step (IntervalTick h capture) s = s)
   \<and> (\<not> isAnalyzingFrameRef s \<longrightarrow> \<not> isAnalyzingFrameRef (step (IntervalTick h None) s))
   \<and> (0 < pendingFrame s \<longrightarrow>
        \<not> isAnalyzingFrameRef (step (FrameSettled outcome) s)
        \<and> pendingFrame (step (FrameSettled outcome) s) = pendingFrame s - 1)"
proof -
  have "frame_inv init" by (simp add: frame_inv_def init_def)
  then have 1: "pendingFrame (run es init) = (if isAnalyzingFrameRef (run es init) then 1 else 0)"
    using run_frame_inv[of init es] by (simp add: frame_inv_def)
  have 2: "list_all (\<lambda>e. snd e = 5000) (intervals (run es init))"
    by (rule run_period) (simp add: init_def)
  have 3: "isAnalyzingFrameRef s \<longrightarrow> step (IntervalTick h capture) s = s"
    by (simp add: step_def analyzeFrame_def commit_same)
  have 4: "\<not> isAnalyzingFrameRef s \<longrightarrow> \<not> isAnalyzingFrameRef (step (IntervalTick h None) s)"
    by (simp add: step_def commit_keeps analyzeFrame_def)
  have 5: "0 < pendingFrame s \<longrightarrow>
        \<not> isAnalyzingFrameRef (step (FrameSettled outcome) s)
        \<and> pendingFrame (step (FrameSettled outcome) s) = pendingFrame s - 1"
    by (auto simp: step_def commit_keeps analyzeFrame_settle_def stopScreenSharing_def Let_def
        split: sum.splits option.splits)
  show ?thesis using 1 2 3 4 5 by blast
qed

lemma ev_busy:
  "isAnalyzingFrameRef (run first_frame_sent init) = True"
  "pendingFrame (run first_frame_sent init) = 1"
  "calls (run first_frame_sent init) = [\<lparr> c_text = [], c_language = En, c_topic = General,
       c_image = Some ''AAAA'', c_mime = Some ''image/jpeg'' \<rparr>]"
  "intervals (run first_frame_sent init) = [(1, 5000)]"
  "isAnalyzingFrameRef (run [ClickShare, DisplayMediaSettled True] init) = False"
  by (simp_all add: first_frame_sent_def eval_defs)

theorem one_frame_in_flight_witness:
  "isAnalyzingFrameRef (run first_frame_sent init)
   \<and> pendingFrame (run first_frame_sent init) = 1
   \<and> intervals (run first_frame_sent init) = [(1, 5000)]
   \<and> step (IntervalTick 1 (Some ''BBBB'')) (run first_frame_sent init)
       = run first_frame_sent init
   \<and> calls (step (IntervalTick 1 (Some ''BBBB'')) (run first_frame_sent init))
       = [\<lparr> c_text = [], c_language = En, c_topic = General,
            c_image = Some ''AAAA'', c_mime = Some ''image/jpeg'' \<rparr>]
   \<and> \<not> isAnalyzingFrameRef (run [ClickShare, DisplayMediaSettled True] init)
   \<and> \<not> isAnalyzingFrameRef
         (step (IntervalTick 1 None) (run [ClickShare, DisplayMediaSettled True] init))
   \<and> 0 < pendingFrame (run first_frame_sent init)
   \<and> \<not> isAnalyzingFrameRef (step (FrameSettled (Inl ''offline'')) (run first_frame_sent init))
   \<and> pendingFrame (step (FrameSettled (Inl ''offline'')) (run first_frame_sent init)) = 0
   \<and> \<not> isAnalyzingFrameRef
         (step (FrameSettled (Inr sample_result)) (run first_frame_sent init))"
  using one_frame_in_flight[of first_frame_sent "run first_frame_sent init" 1
      "Some ''BBBB''" "Inl ''offline''"]
    one_frame_in_flight[of first_frame_sent "run [ClickShare, DisplayMediaSettled True] init"
      1 "Some ''BBBB''" "Inr sample_result"]
    one_frame_in_flight[of first_frame_sent "run first_frame_sent init" 1
      "Some ''BBBB''" "Inr sample_result"]
  by (simp add: ev_busy del: run.simps)

lemma frame_result_step:
  "step (FrameSettled (Inr result)) s = react (FrameSettled (Inr result)) s"
  by (simp add: step_def analyzeFrame_settle_def commit_no_deps deps_def commit_same)

text \<open>
  The part of claim C3 that holds. A frame result that arrives directly after
  \<^verbatim>\<open>stopScreenSharing\<close> is discarded, and in general a frame result that arrives while
  no capture stream is held changes neither the displayed result nor the history; a frame
  result is applied only if some capture stream is held when the call completes.
\<close>

lemma frame_result_without_stream_discarded:
  "analysisResult (analyzeFrame_settle (Inr result) (stopScreenSharing s)) = None
   \<and> analysisHistory (analyzeFrame_settle (Inr result) (stopScreenSharing s))
       = analysisHistory s
   \<and> (mediaStreamRef s = None \<longrightarrow>
        analysisResult (step (FrameSettled (Inr result)) s) = analysisResult s
        \<and> analysisHistory (step (FrameSettled (Inr result)) s) = analysisHistory s)
   \<and> (analysisResult (step (FrameSettled (Inr result)) s) \<noteq> analysisResult s
        \<or> analysisHistory (step (FrameSettled (Inr result)) s) \<noteq> analysisHistory s
      \<longrightarrow> mediaStreamRef s \<noteq> None)"
  unfolding frame_result_step
  by (auto simp: analyzeFrame_settle_def stopScreenSharing_result)

text \<open>
  Claim C3 (defect in the code). The guard of line 195 tests that a capture stream is
  held, not that it is the stream the frame was taken from. A share is running on stream
  0 and its first frame call is in flight; the share is stopped by its button, which
  invokes \<^verbatim>\<open>stopScreenSharing\<close> and leaves no stream and no displayed result; the share
  is started again and holds stream 1; then the result of the first session's frame
  arrives. It is not discarded: it becomes the displayed result and is appended to the
  history.
\<close>

theorem stale_frame_result_applied:
  "mediaStreamRef (run first_frame_sent init) = Some 0
   \<and> pendingFrame (run first_frame_sent init) = 1
   \<and> mediaStreamRef (run (first_frame_sent @ [ClickShare]) init) = None
   \<and> analysisResult (run (first_frame_sent @ [ClickShare]) init) = None
   \<and> mediaStreamRef
        (run (first_frame_sent @ [ClickShare, ClickShare, DisplayMediaSettled True]) init)
       = Some 1
   \<and> analysisResult
        (run (first_frame_sent @ [ClickShare, ClickShare, DisplayMediaSettled True,
           FrameSettled (Inr sample_result)]) init) = Some sample_result
   \<and> analysisHistory
        (run (first_frame_sent @ [ClickShare, ClickShare, DisplayMediaSettled True,
           FrameSettled (Inr sample_result)]) init) = [sample_result]"
  by (simp add: first_frame_sent_def sample_result_def eval_defs)

text \<open>
  A failed frame call tears the session down whatever the state: the interval held by the
  session leaves the timer table, so a later tick of it does nothing, the tracks of the
  held stream are stopped, the video element is unmounted or its sink detached, and the
  displayed result is cleared.
\<close>

lemma frame_failure_teardown:
  assumes "0 < pendingFrame s"
  shows "\<not> isScreenSharing (step (FrameSettled (Inl m)) s)"
    and "mediaStreamRef (step (FrameSettled (Inl m)) s) = None"
    and "analysisIntervalRef (step (FrameSettled (Inl m)) s) = None"
    and "analysisResult (step (FrameSettled (Inl m)) s) = None"
    and "analysisIntervalRef s = Some h \<Longrightarrow>
           h \<notin> set (map fst (intervals (step (FrameSettled (Inl m)) s)))"
    and "analysisIntervalRef s = Some h \<Longrightarrow>
           step (IntervalTick h capture) (step (FrameSettled (Inl m)) s)
             = step (FrameSettled (Inl m)) s"
    and "mediaStreamRef s = Some k \<Longrightarrow> k \<notin> set (liveStreams (step (FrameSettled (Inl m)) s))"
    and "(case videoRef (step (FrameSettled (Inl m)) s) of
            None \<Rightarrow> True | Some v \<Rightarrow> srcObject v = None)"
proof -
  let ?s' = "step (FrameSettled (Inl m)) s"
  have "videoRef (react (FrameSettled (Inl m)) s)
          = (case videoRef s of None \<Rightarrow> None | Some v \<Rightarrow> Some (v\<lparr> srcObject := None \<rparr>))"
    using assms by (simp add: analyzeFrame_settle_def stopScreenSharing_videoRef)
  then show "(case videoRef ?s' of None \<Rightarrow> True | Some v \<Rightarrow> srcObject v = None)"
    by (simp add: step_def commit_videoRef split: option.splits)
  show "\<not> isScreenSharing ?s'" and "mediaStreamRef ?s' = None"
    and "analysisIntervalRef ?s' = None"
    using assms
    by (simp_all add: step_def commit_keeps analyzeFrame_settle_def stopScreenSharing_result)
  show "analysisResult ?s' = None"
    using assms
    by (simp add: step_def effect_defs analyzeFrame_settle_def stopScreenSharing_result Let_def
        split: option.splits)
  show 2: "h \<notin> set (map fst (intervals ?s'))" if "analysisIntervalRef s = Some h"
    using assms that
    by (auto simp: step_def commit_keeps analyzeFrame_settle_def stopScreenSharing_def
        clearTimer_def Let_def split: option.splits)
  show "step (IntervalTick h capture) ?s' = ?s'" if "analysisIntervalRef s = Some h"
    using 2[OF that] by (simp add: step_def commit_same)
  show "k \<notin> set (liveStreams ?s')" if "mediaStreamRef s = Some k"
    using assms that
    by (auto simp: step_def commit_keeps analyzeFrame_settle_def stopScreenSharing_def
        Let_def split: option.splits)
qed

text \<open>
  Whenever the share is active with a blank text and no image, the message of a failed
  frame call does not survive the update that sets it.
\<close>

lemma frame_failure_error_erased:
  assumes "0 < pendingFrame s" "isScreenSharing s" "blank (inputText s)"
    "\<not> truthy (imageBase64 s)"
  shows "error (step (FrameSettled (Inl m)) s) = None"
proof -
  let ?r = "react (FrameSettled (Inl m)) s"
  have "inputText ?r = inputText s" "imageBase64 ?r = imageBase64 s" "\<not> isScreenSharing ?r"
    using assms(1) by (simp_all add: analyzeFrame_settle_def stopScreenSharing_result)
  then show ?thesis
    unfolding step_def using assms(2,3,4) by (rule commit_reset_error)
qed

text \<open>
  Claim C4 (defect in the code). A screen share is running with an empty text and no
  image, and the first frame call fails. The \<^verbatim>\<open>catch\<close> block sets the error message and
  tears the session down; the teardown sets \<open>isScreenSharing\<close> to false, which re-runs
  the effect that clears the results when the input is cleared, and that effect sets the
  error back to \<^verbatim>\<open>null\<close>. The session is gone and no error is shown. A failed manual
  analysis keeps its message.
\<close>

theorem frame_failure_error_lost:
  "isScreenSharing (run first_frame_sent init)
   \<and> pendingFrame (run first_frame_sent init) = 1
   \<and> error (run (first_frame_sent @ [FrameSettled (Inl ''offline'')]) init) = None
   \<and> \<not> isScreenSharing (run (first_frame_sent @ [FrameSettled (Inl ''offline'')]) init)
   \<and> intervals (run (first_frame_sent @ [FrameSettled (Inl ''offline'')]) init) = []
   \<and> liveStreams (run (first_frame_sent @ [FrameSettled (Inl ''offline'')]) init) = []
   \<and> error (run [SetInputText (js ''hi''), ClickAnalyze, AnalyzeSettled (Inl ''offline'')] init)
       = Some (Literal ''offline'')"
  by (simp add: first_frame_sent_def eval_defs)

subsection \<open>The manual trigger\<close>

text \<open>
  Claim C9. A click on the analyse button starts an analysis exactly when no manual/auto
  analysis is loading, the text is not blank (not empty once trimmed) or an image is
  stored, and the screen is not
  shared: then one call is logged and the loading flag is set. In every other state the
  click leaves the state as it is. While the loading flag is set \<^verbatim>\<open>handleAnalyze\<close> itself,
  however it is triggered, makes no call and changes nothing.
\<close>

theorem manual_trigger_guard:
  "(isLoading s \<or> (blank (inputText s) \<and> \<not> truthy (imageBase64 s)) \<or> isScreenSharing s
      \<longrightarrow> step ClickAnalyze s = s)
   \<and> (\<not> isLoading s \<and> (\<not> blank (inputText s) \<or> truthy (imageBase64 s)) \<and> \<not> isScreenSharing s
      \<longrightarrow> step ClickAnalyze s =
            s\<lparr> isLoading := True, error := None, analysisResult := None,
              feedbackState := Fb_none,
              calls := calls s @ [\<lparr> c_text = inputText s, c_language = language s,
                c_topic = socialTopic s, c_image = imageBase64 s,
                c_mime = imageMimeType s \<rparr>],
              pendingAnalyze := Suc (pendingAnalyze s) \<rparr>)
   \<and> (isLoading s \<longrightarrow> handleAnalyze s = s)"
  by (auto simp: step_def commit_same handleAnalyze_def commit_no_deps deps_def)

lemma ev_typed:
  "isLoading (step (SetInputText (js ''hi'')) init) = False"
  "isScreenSharing (step (SetInputText (js ''hi'')) init) = False"
  "calls (step (SetInputText (js ''hi'')) init) = []"
  "inputText (step (SetInputText (js ''hi'')) init) = js ''hi''"
  "language (step (SetInputText (js ''hi'')) init) = En"
  "socialTopic (step (SetInputText (js ''hi'')) init) = General"
  "imageBase64 (step (SetInputText (js ''hi'')) init) = None"
  "imageMimeType (step (SetInputText (js ''hi'')) init) = None"
  "isLoading (step ClickAnalyze (step (SetInputText (js ''hi'')) init)) = True"
  "inputText init = []"
  "imageBase64 init = None"
  "blank [] = True"
  "blank (js ''hi'') = False"
  "truthy None = False"
  "inputText (step (SetInputText [0xA0, 0x3000]) init) = [0xA0, 0x3000]"
  "imageBase64 (step (SetInputText [0xA0, 0x3000]) init) = None"
  "blank [0xA0, 0x3000] = True"
  by (simp_all add: eval_defs)

text \<open>
  With the empty text, or with a text of a no-break space and an ideographic space, the
  click does nothing; with a text it starts one analysis; a second click while that
  analysis is loading does nothing.
\<close>

theorem manual_trigger_guard_witness:
  "blank (inputText init) \<and> \<not> truthy (imageBase64 init) \<and> step ClickAnalyze init = init
   \<and> blank (inputText (step (SetInputText [0xA0, 0x3000]) init))
   \<and> step ClickAnalyze (step (SetInputText [0xA0, 0x3000]) init)
       = step (SetInputText [0xA0, 0x3000]) init
   \<and> \<not> isLoading (step (SetInputText (js ''hi'')) init)
   \<and> \<not> blank (inputText (step (SetInputText (js ''hi'')) init))
   \<and> \<not> isScreenSharing (step (SetInputText (js ''hi'')) init)
   \<and> calls (step ClickAnalyze (step (SetInputText (js ''hi'')) init))
       = [\<lparr> c_text = js ''hi'', c_language = En, c_topic = General, c_image = None,
            c_mime = None \<rparr>]
   \<and> isLoading (step ClickAnalyze (step (SetInputText (js ''hi'')) init))
   \<and> step ClickAnalyze (step ClickAnalyze (step (SetInputText (js ''hi'')) init))
       = step ClickAnalyze (step (SetInputText (js ''hi'')) init)
   \<and> handleAnalyze (step ClickAnalyze (step (SetInputText (js ''hi'')) init))
       = step ClickAnalyze (step (SetInputText (js ''hi'')) init)"
  using manual_trigger_guard[of init]
    manual_trigger_guard[of "step (SetInputText [0xA0, 0x3000]) init"]
    manual_trigger_guard[of "step (SetInputText (js ''hi'')) init"]
    manual_trigger_guard[of "step ClickAnalyze (step (SetInputText (js ''hi'')) init)"]
  by (simp add: ev_typed)

subsection \<open>File upload\<close>

text \<open>
  Claim C8. A chosen file of more than \<open>4 * 1024 * 1024\<close> bytes is rejected: the error
  slot gets the size message and nothing else changes, so no call is made, the stored
  image stays and the capture mode stays. A file of at most that size, in particular of
  exactly that size, is accepted: the share is stopped, the file is read, and when the
  read completes the image and its MIME type are stored.
\<close>

theorem upload_size_limit:
  "(fileDialogOpen s \<and> 4 * 1024 * 1024 < fsize f \<longrightarrow>
      step (FileChosen (Some f)) s
        = s\<lparr> fileDialogOpen := False,
             error := Some (Translated (language s) ''imageSizeError'') \<rparr>)
   \<and> (fileDialogOpen s \<and> fsize f \<le> 4 * 1024 * 1024 \<and> pendingFiles s = [] \<longrightarrow>
      pendingFiles (step (FileChosen (Some f)) s) = [(ftype f, language s)]
      \<and> \<not> isScreenSharing (step (FileChosen (Some f)) s)
      \<and> imageBase64 (run [FileChosen (Some f), FileSettled (Some base64)] s) = Some base64
      \<and> imageMimeType (run [FileChosen (Some f), FileSettled (Some base64)] s)
          = Some (ftype f))"
proof -
  have 1: "fileDialogOpen s \<and> 4 * 1024 * 1024 < fsize f \<longrightarrow>
      step (FileChosen (Some f)) s
        = s\<lparr> fileDialogOpen := False,
             error := Some (Translated (language s) ''imageSizeError'') \<rparr>"
    by (simp add: step_def handleImageChange_def commit_no_deps deps_def)
  have 2: "pendingFiles (step (FileChosen (Some f)) s) = [(ftype f, language s)]
      \<and> \<not> isScreenSharing (step (FileChosen (Some f)) s)"
    if "fileDialogOpen s" "fsize f \<le> 4 * 1024 * 1024" "pendingFiles s = []"
    using that
    by (simp add: step_def handleImageChange_def commit_keeps stopScreenSharing_result)
  have 3: "imageBase64 (step (FileSettled (Some base64)) s') = Some base64
      \<and> imageMimeType (step (FileSettled (Some base64)) s') = Some (ftype f)"
    if "pendingFiles s' = [(ftype f, language s)]" for s'
    using that by (simp add: step_def handleImageChange_settle_def commit_keeps)
  show ?thesis using 1 2 3 by simp
qed

lemma ev_dialog:
  "fileDialogOpen (step ClickUpload init) = True"
  "pendingFiles (step ClickUpload init) = []"
  "language (step ClickUpload init) = En"
  by (simp_all add: eval_defs)

text \<open>One byte over the limit is rejected; the limit itself is accepted.\<close>

theorem upload_size_limit_witness:
  "fileDialogOpen (step ClickUpload init)
   \<and> (4 * 1024 * 1024 :: nat) < 4194305
   \<and> step (FileChosen (Some \<lparr> fsize = 4194305, ftype = ''image/png'' \<rparr>)) (step ClickUpload init)
       = (step ClickUpload init)\<lparr> fileDialogOpen := False,
             error := Some (Translated En ''imageSizeError'') \<rparr>
   \<and> (4194304 :: nat) \<le> 4 * 1024 * 1024
   \<and> pendingFiles (step ClickUpload init) = []
   \<and> imageBase64 (run [FileChosen (Some \<lparr> fsize = 4194304, ftype = ''image/png'' \<rparr>),
         FileSettled (Some ''QUJD'')] (step ClickUpload init)) = Some ''QUJD''
   \<and> imageMimeType (run [FileChosen (Some \<lparr> fsize = 4194304, ftype = ''image/png'' \<rparr>),
         FileSettled (Some ''QUJD'')] (step ClickUpload init)) = Some ''image/png''"
  using upload_size_limit[of "step ClickUpload init" "\<lparr> fsize = 4194305, ftype = ''image/png'' \<rparr>"]
    upload_size_limit[of "step ClickUpload init" "\<lparr> fsize = 4194304, ftype = ''image/png'' \<rparr>" "''QUJD''"]
  by (simp add: ev_dialog del: run.simps)

text \<open>
  Each handler does its part of the exclusion before its \<^verbatim>\<open>await\<close>: an accepted upload
  stops the share before the file is read, and starting a share removes the image before
  the stream is requested.
\<close>

lemma capture_modes_cleared_first:
  "fsize f \<le> 4 * 1024 * 1024 \<Longrightarrow>
     \<not> isScreenSharing (handleImageChange (Some f) s)
     \<and> mediaStreamRef (handleImageChange (Some f) s) = None"
  "imageBase64 (startScreenSharing s) = None"
  by (simp_all add: handleImageChange_def stopScreenSharing_result startScreenSharing_def
      handleRemoveImage_def)

text \<open>
  Claim C6 (defect in the code). The exclusion is checked before the \<^verbatim>\<open>await\<close> of each
  handler and not after it, so the two requests can overlap. In the first run the share
  is requested, then, while the permission prompt is open, a file is chosen and read, and
  then the permission is granted. In the second the file is chosen, the share is
  requested while the file is being read, the read completes and the permission is
  granted. Both runs end with a stored uploaded image and an active screen share.
\<close>

theorem upload_and_share_both_active:
  "imageBase64 (run [ClickShare, ClickUpload,
       FileChosen (Some \<lparr> fsize = 3, ftype = ''image/png'' \<rparr>), FileSettled (Some ''QUJD''),
       DisplayMediaSettled True] init) = Some ''QUJD''
   \<and> isScreenSharing (run [ClickShare, ClickUpload,
       FileChosen (Some \<lparr> fsize = 3, ftype = ''image/png'' \<rparr>), FileSettled (Some ''QUJD''),
       DisplayMediaSettled True] init)
   \<and> mediaStreamRef (run [ClickShare, ClickUpload,
       FileChosen (Some \<lparr> fsize = 3, ftype = ''image/png'' \<rparr>), FileSettled (Some ''QUJD''),
       DisplayMediaSettled True] init) = Some 0
   \<and> imageBase64 (run [ClickUpload,
       FileChosen (Some \<lparr> fsize = 3, ftype = ''image/png'' \<rparr>), ClickShare,
       FileSettled (Some ''QUJD''), DisplayMediaSettled True] init) = Some ''QUJD''
   \<and> isScreenSharing (run [ClickUpload,
       FileChosen (Some \<lparr> fsize = 3, ftype = ''image/png'' \<rparr>), ClickShare,
       FileSettled (Some ''QUJD''), DisplayMediaSettled True] init)"
  by (simp add: eval_defs)

subsection \<open>Failed analyses\<close>












subsection \<open>The response of the service\<close>

text \<open>
  Claim C7, as amended. The client parses the trimmed response text as JSON. When the
  parser rejects the text, \<^verbatim>\<open>analyzeContent\<close> fails with the message "Failed to get analysis
  from AI: " followed by the parser's message. When the parser accepts it, the parsed
  value is returned as it is, whatever fields it has: the schema is declared to the
  service and never checked by the client.
\<close>

theorem analyzeContent_fails_on_syntax_only:
  "(JSON_parse (trim response) = Inl m \<longrightarrow>
      analyzeContent_settle JSON_parse undefined_trim_message (Responds (Some response))
        = Inl (''Failed to get analysis from AI: '' @ m))
   \<and> (JSON_parse (trim response) = Inr v \<longrightarrow>
      analyzeContent_settle JSON_parse undefined_trim_message (Responds (Some response))
        = Inr v)"
  by (simp add: analyzeContent_settle_def)

lemma ev_parse:
  "JSON_parse_sample (trim (js ''nope'')) = Inl ''Unexpected token''"
  "JSON_parse_sample (trim (0xFEFF # js '' {} '' @ [0x3000])) = Inr (JObject [])"
  "schema (JObject []) = False"
  by (simp_all add: JSON_parse_sample_def schema_def field_def is_integer_def is_string_def
      recipientImpact_schema_def eval_defs)

text \<open>
  A text that is not JSON fails; the empty object, which has no field, is returned, here
  from a response that wraps it in a byte order mark, spaces and an ideographic space.
\<close>

theorem analyzeContent_fails_on_syntax_only_witness:
  "JSON_parse_sample (trim (js ''nope'')) = Inl ''Unexpected token''
   \<and> analyzeContent_settle JSON_parse_sample ''TypeError'' (Responds (Some (js ''nope'')))
       = Inl ''Failed to get analysis from AI: Unexpected token''
   \<and> JSON_parse_sample (trim (0xFEFF # js '' {} '' @ [0x3000])) = Inr (JObject [])
   \<and> analyzeContent_settle JSON_parse_sample ''TypeError''
         (Responds (Some (0xFEFF # js '' {} '' @ [0x3000]))) = Inr (JObject [])
   \<and> \<not> schema (JObject [])"
  using analyzeContent_fails_on_syntax_only[of JSON_parse_sample "js ''nope''"
      "''Unexpected token''" "''TypeError''"]
    analyzeContent_fails_on_syntax_only[of JSON_parse_sample "0xFEFF # js '' {} '' @ [0x3000]"
      _ "''TypeError''" "JObject []"]
  by (simp add: ev_parse)

text \<open>
  Claim C7 as stated fails. The response text of the empty object is well-formed JSON
  with none of the required fields: \<^verbatim>\<open>analyzeContent\<close> returns it, and the manual flow
  appends it to the history.
\<close>

theorem partial_result_returned:
  "analyzeContent_settle JSON_parse_sample ''TypeError'' (Responds (Some (js ''{}'')))
     = Inr (JObject [])
   \<and> \<not> schema (JObject [])
   \<and> analysisHistory (run [SetInputText (js ''hi''), ClickAnalyze,
        AnalyzeSettled (analyzeContent_settle JSON_parse_sample ''TypeError''
          (Responds (Some (js ''{}''))))] init)
       = [JObject []]"
  by (simp add: JSON_parse_sample_def analyzeContent_settle_def schema_def field_def
      is_integer_def is_string_def recipientImpact_schema_def eval_defs)

end
